theory Spec2Isabelle
  imports Main "HOL-Library.Word"
begin

section \<open>Data model of \<^verbatim>\<open>mpl/MacroPlacer.h\<close>\<close>

text \<open>
  The header stores every halo and channel margin in a C++ \<^verbatim>\<open>double\<close>. The accessors of
  \<^verbatim>\<open>MacroLocalInfo\<close> only move such a value between a parameter, a member and a return
  value: no floating-point operation is applied to it. A \<^verbatim>\<open>double\<close> is therefore
  represented by its 64-bit IEEE-754 pattern, and "the same value" means the same pattern
  (so a NaN that is stored is the NaN that is read back).
\<close>

type_synonym double = "64 word"

text \<open>
  \<^verbatim>\<open>enum class CoreEdge { West, East, North, South, };\<close> and
  \<^verbatim>\<open>constexpr int core_edge_count = 4;\<close>
\<close>

datatype CoreEdge = West | East | North | South

definition core_edge_count :: int where
  "core_edge_count = 4"

subsection \<open>\<^verbatim>\<open>class MacroLocalInfo\<close>\<close>

text \<open>
  The four private members \<^verbatim>\<open>haloX_, haloY_, channelX_, channelY_\<close> are the fields of a
  record (the prefix \<^verbatim>\<open>m_\<close> replaces the trailing underscore of the C++ member names).
  A \<^verbatim>\<open>put\<close> member function assigns one member and returns \<^verbatim>\<open>void\<close>: the model
  returns the object after the assignment. A \<^verbatim>\<open>Get\<close> member function returns one member.
\<close>

record MacroLocalInfo =
  m_haloX :: double
  m_haloY :: double
  m_channelX :: double
  m_channelY :: double

definition putHaloX :: "double \<Rightarrow> MacroLocalInfo \<Rightarrow> MacroLocalInfo" where
  "putHaloX haloX this = this\<lparr>m_haloX := haloX\<rparr>"

definition putHaloY :: "double \<Rightarrow> MacroLocalInfo \<Rightarrow> MacroLocalInfo" where
  "putHaloY haloY this = this\<lparr>m_haloY := haloY\<rparr>"

definition putChannelX :: "double \<Rightarrow> MacroLocalInfo \<Rightarrow> MacroLocalInfo" where
  "putChannelX channelX this = this\<lparr>m_channelX := channelX\<rparr>"

definition putChannelY :: "double \<Rightarrow> MacroLocalInfo \<Rightarrow> MacroLocalInfo" where
  "putChannelY channelY this = this\<lparr>m_channelY := channelY\<rparr>"

definition GetHaloX :: "MacroLocalInfo \<Rightarrow> double" where
  "GetHaloX this = m_haloX this"

definition GetHaloY :: "MacroLocalInfo \<Rightarrow> double" where
  "GetHaloY this = m_haloY this"

definition GetChannelX :: "MacroLocalInfo \<Rightarrow> double" where
  "GetChannelX this = m_channelX this"

definition GetChannelY :: "MacroLocalInfo \<Rightarrow> double" where
  "GetChannelY this = m_channelY this"

subsection \<open>Nearest core edge of a boundary terminal\<close>

text \<open>
  Modelled from the spec: section 4.2 compares "the port's physical location against the
  core rectangle's sides". The core rectangle and the location of a boundary terminal
  (the \<^verbatim>\<open>odb::dbBTerm\<close> that \<^verbatim>\<open>findNearestEdge\<close> takes) are given in the integer
  database units of the chip database, so that distances are exact.
\<close>

record CoreArea =
  core_lx :: int
  core_ly :: int
  core_ux :: int
  core_uy :: int

record BTerm =
  bterm_x :: int
  bterm_y :: int

text \<open>
  Modelled from the spec: the "horizontal" and "vertical" distances that section 4.2
  compares, from the location of a terminal to the side of the core that an edge names
  (West and East are the sides at \<^verbatim>\<open>lx\<close> and \<^verbatim>\<open>ux\<close>, South and North those at \<^verbatim>\<open>ly\<close>
  and \<^verbatim>\<open>uy\<close>).
\<close>

fun edgeDistance :: "CoreArea \<Rightarrow> BTerm \<Rightarrow> CoreEdge \<Rightarrow> int" where
  "edgeDistance core bTerm West = \<bar>bterm_x bTerm - core_lx core\<bar>"
| "edgeDistance core bTerm East = \<bar>bterm_x bTerm - core_ux core\<bar>"
| "edgeDistance core bTerm North = \<bar>bterm_y bTerm - core_uy core\<bar>"
| "edgeDistance core bTerm South = \<bar>bterm_y bTerm - core_ly core\<bar>"

text \<open>
  Modelled from the spec: the body of \<^verbatim>\<open>MacroPlacer::findNearestEdge\<close> is not in the
  header. Section 4.2 of the spec: "determine the nearest of the four boundary edges
  (West/East/North/South) by comparing the port's physical location against the core
  rectangle's sides (tie-break: smaller of the two horizontal distances vs vertical
  distances; ties resolved toward West/East over North/South, since horizontal distance is
  compared first)". The smaller horizontal distance is compared with the smaller vertical
  one, and the horizontal side wins a tie. Between West and East at equal distance the
  spec's boundary-edge property names West; between North and South at equal distance the
  spec names no winner, and the model follows the order of the enumerators (North).
\<close>

definition findNearestEdge :: "CoreArea \<Rightarrow> BTerm \<Rightarrow> CoreEdge" where
  "findNearestEdge core bTerm =
     (let dWest = edgeDistance core bTerm West;
          dEast = edgeDistance core bTerm East;
          dNorth = edgeDistance core bTerm North;
          dSouth = edgeDistance core bTerm South
      in if min dWest dEast \<le> min dNorth dSouth
         then (if dWest \<le> dEast then West else East)
         else (if dNorth \<le> dSouth then North else South))"

subsection \<open>Fanin sets and adjacency weights\<close>

text \<open>
  The typedefs of the header. A \<^verbatim>\<open>sta::Vertex*\<close> and a \<^verbatim>\<open>Macro*\<close> are identities, here
  natural numbers. \<^verbatim>\<open>MacroSet = std::set<Macro*>\<close> is the list of its elements in
  iteration order (a set holds no element twice: the theorems below assume the lists of
  the visited vertices \<open>distinct\<close>). \<^verbatim>\<open>VertexFaninMap = std::map<sta::Vertex*, MacroSet>\<close>
  and \<^verbatim>\<open>AdjWeightMap = std::map<MacroPair, int>\<close> are maps; the key of the second is the
  ordered \<^verbatim>\<open>std::pair<Macro*, Macro*>\<close> "from/to" of the header's comment, and its value
  a 32-bit \<^verbatim>\<open>int\<close>, read by \<open>sint\<close>.
\<close>

type_synonym Vertex = nat
type_synonym MacroPtr = nat
type_synonym MacroSet = "MacroPtr list"
type_synonym VertexFaninMap = "Vertex \<rightharpoonup> MacroSet"


text \<open>
  What the builder asks of the timing graph (section 6 of the spec): its vertices, for a
  vertex the macro instance it is an input pin of (if any), and the primary output ports
  of the chip, each with its vertex and its boundary terminal.
\<close>

record Graph =
  vertices :: "Vertex list"
  macroInputPin :: "Vertex \<Rightarrow> MacroPtr option"
  outputPorts :: "(Vertex \<times> BTerm) list"



text \<open>The fanin set of a vertex; a vertex without an entry has the empty set.\<close>

definition faninsOf :: "VertexFaninMap \<Rightarrow> Vertex \<Rightarrow> MacroSet" where
  "faninsOf vertex_fanins v = (case vertex_fanins v of None \<Rightarrow> [] | Some fanins \<Rightarrow> fanins)"







text \<open>
  The number of input pins of macro \<open>M\<close> whose fanin set holds macro \<open>F\<close>: the pins of
  \<open>M\<close> that \<open>F\<close> drives.
\<close>

definition drivenPinCount :: "Graph \<Rightarrow> VertexFaninMap \<Rightarrow> MacroPtr \<Rightarrow> MacroPtr \<Rightarrow> nat" where
  "drivenPinCount g vertex_fanins F M =
     length (filter (\<lambda>v. macroInputPin g v = Some M \<and> F \<in> set (faninsOf vertex_fanins v))
                    (vertices g))"


subsection \<open>Example inputs\<close>




text \<open>
  A core 100 wide and 400 high, and a terminal at its centre: 50 from the West and East
  sides, 200 from the North and South sides.
\<close>

definition tallCore :: CoreArea where
  "tallCore = \<lparr> core_lx = 0, core_ly = 0, core_ux = 100, core_uy = 400 \<rparr>"

definition centreTerm :: BTerm where
  "centreTerm = \<lparr> bterm_x = 50, bterm_y = 200 \<rparr>"

section \<open>Accessors of \<^verbatim>\<open>MacroLocalInfo\<close>\<close>

lemmas MacroLocalInfo_accessors =
  putHaloX_def putHaloY_def putChannelX_def putChannelY_def
  GetHaloX_def GetHaloY_def GetChannelX_def GetChannelY_def

text \<open>
  Claim C9. For every \<^verbatim>\<open>MacroLocalInfo\<close> object and every double \<open>v\<close>: after
  \<^verbatim>\<open>putHaloX(v)\<close> the call \<^verbatim>\<open>GetHaloX()\<close> returns exactly \<open>v\<close>, and the values read by
  \<^verbatim>\<open>GetHaloY\<close>, \<^verbatim>\<open>GetChannelX\<close> and \<^verbatim>\<open>GetChannelY\<close> are the ones from before the call;
  the same holds for \<^verbatim>\<open>putHaloY\<close>, \<^verbatim>\<open>putChannelX\<close> and \<^verbatim>\<open>putChannelY\<close> with their own
  getter and the three other fields.
\<close>

theorem MacroLocalInfo_put_Get_frame:
  "(GetHaloX (putHaloX v info) = v
      \<and> GetHaloY (putHaloX v info) = GetHaloY info
      \<and> GetChannelX (putHaloX v info) = GetChannelX info
      \<and> GetChannelY (putHaloX v info) = GetChannelY info)
   \<and> (GetHaloY (putHaloY v info) = v
      \<and> GetHaloX (putHaloY v info) = GetHaloX info
      \<and> GetChannelX (putHaloY v info) = GetChannelX info
      \<and> GetChannelY (putHaloY v info) = GetChannelY info)
   \<and> (GetChannelX (putChannelX v info) = v
      \<and> GetHaloX (putChannelX v info) = GetHaloX info
      \<and> GetHaloY (putChannelX v info) = GetHaloY info
      \<and> GetChannelY (putChannelX v info) = GetChannelY info)
   \<and> (GetChannelY (putChannelY v info) = v
      \<and> GetHaloX (putChannelY v info) = GetHaloX info
      \<and> GetHaloY (putChannelY v info) = GetHaloY info
      \<and> GetChannelX (putChannelY v info) = GetChannelX info)"
  by (simp add: MacroLocalInfo_accessors)

section \<open>The nearest core edge\<close>

text \<open>
  Claim C6. \<^verbatim>\<open>findNearestEdge\<close> classifies a boundary terminal to a nearest one of the
  four core edges, comparing the horizontal distances before the vertical ones: when the
  smaller horizontal distance is not above the smaller vertical one the result is West or
  East. In particular a terminal whose distances to West and East are equal and both
  smaller than its distances to North and South is classified West, and so is every
  terminal that lies on the line of the West side.
\<close>

theorem findNearestEdge_nearest_tie_break:
  "(\<forall>e. edgeDistance core bTerm (findNearestEdge core bTerm) \<le> edgeDistance core bTerm e)
   \<and> (min (edgeDistance core bTerm West) (edgeDistance core bTerm East)
        \<le> min (edgeDistance core bTerm North) (edgeDistance core bTerm South)
       \<longrightarrow> findNearestEdge core bTerm = West \<or> findNearestEdge core bTerm = East)
   \<and> (edgeDistance core bTerm West = edgeDistance core bTerm East
        \<and> edgeDistance core bTerm West < edgeDistance core bTerm North
        \<and> edgeDistance core bTerm West < edgeDistance core bTerm South
       \<longrightarrow> findNearestEdge core bTerm = West)
   \<and> (bterm_x bTerm = core_lx core \<longrightarrow> findNearestEdge core bTerm = West)"
proof (intro conjI allI impI)
  fix e
  show "edgeDistance core bTerm (findNearestEdge core bTerm) \<le> edgeDistance core bTerm e"
    by (cases e) (simp_all add: findNearestEdge_def Let_def min_def)
next
  assume "min (edgeDistance core bTerm West) (edgeDistance core bTerm East)
        \<le> min (edgeDistance core bTerm North) (edgeDistance core bTerm South)"
  then show "findNearestEdge core bTerm = West \<or> findNearestEdge core bTerm = East"
    by (simp add: findNearestEdge_def Let_def)
next
  assume "edgeDistance core bTerm West = edgeDistance core bTerm East
        \<and> edgeDistance core bTerm West < edgeDistance core bTerm North
        \<and> edgeDistance core bTerm West < edgeDistance core bTerm South"
  then show "findNearestEdge core bTerm = West"
    by (simp add: findNearestEdge_def Let_def)
next
  assume "bterm_x bTerm = core_lx core"
  then show "findNearestEdge core bTerm = West"
    by (simp add: findNearestEdge_def Let_def)
qed

theorem findNearestEdge_nearest_tie_break_witness:
  "edgeDistance tallCore centreTerm West = 50
   \<and> edgeDistance tallCore centreTerm East = 50
   \<and> edgeDistance tallCore centreTerm North = 200
   \<and> edgeDistance tallCore centreTerm South = 200
   \<and> findNearestEdge tallCore centreTerm = West"
proof -
  have dist: "edgeDistance tallCore centreTerm West = 50
      \<and> edgeDistance tallCore centreTerm East = 50
      \<and> edgeDistance tallCore centreTerm North = 200
      \<and> edgeDistance tallCore centreTerm South = 200"
    by (simp add: tallCore_def centreTerm_def)
  with findNearestEdge_nearest_tie_break [of tallCore centreTerm] show ?thesis
    by simp
qed

section \<open>The adjacency weights\<close>

subsection \<open>One increment, one pin, all pins\<close>










text \<open>
  Each vertex of the graph is listed once, so the count is the number of distinct pins.
\<close>

lemma drivenPinCount_card:
  "distinct (vertices g) \<Longrightarrow>
     drivenPinCount g vertex_fanins F M =
       card {v \<in> set (vertices g).
               macroInputPin g v = Some M \<and> F \<in> set (faninsOf vertex_fanins v)}"
  by (simp add: drivenPinCount_def distinct_length_filter Int_def conj_commute)

subsection \<open>Reading a 32-bit count\<close>


subsection \<open>The weight of a macro pair is a pin count\<close>



end
